theory Spec2Isabelle
  imports Complex_Main
begin

section \<open>The RFID reader of the STDR simulator\<close>

text \<open>
  A shallow embedding of \<^verbatim>\<open>stdr_robot/src/sensors/rfid_reader.cpp\<close>: the angular
  interval test \<^verbatim>\<open>angCheck\<close> and the three callbacks of the class \<^verbatim>\<open>RfidReader\<close>
  (\<^verbatim>\<open>updateSensorCallback\<close>, \<^verbatim>\<open>updateTransform\<close>, \<^verbatim>\<open>receiveRfids\<close>).

  Numbers. The source computes with \<^verbatim>\<open>float\<close> and \<^verbatim>\<open>double\<close>. The angular interval
  test and the callbacks are embedded over the real numbers: rounding, infinities and
  NaN are not modelled there, and the \<^verbatim>\<open>int\<close> variable \<^verbatim>\<open>c\<close> of \<^verbatim>\<open>angCheck\<close> is an
  unbounded integer (converting a value outside the range of \<^verbatim>\<open>int\<close> is undefined in
  C++). The statements about \<^verbatim>\<open>angCheck\<close> for all arguments of a range keep the
  arguments at a distance from the points where rounding or the range of \<^verbatim>\<open>int\<close>
  would decide. For the range gate, whose boundary is decided by the narrowing of the
  distance to \<^verbatim>\<open>float\<close>, the loop and the callback are embedded a second time with the
  conversions to single and double precision written out. The library functions
  \<^verbatim>\<open>sqrt\<close>, \<^verbatim>\<open>pow(_, 2)\<close> and \<^verbatim>\<open>atan2\<close> are their mathematical counterparts.
\<close>

subsection \<open>Constants and library functions\<close>

text \<open>
  Modelled from the spec: the macro \<^verbatim>\<open>PI\<close> is defined in a header that is not part of
  the source file. The spec reads \<^verbatim>\<open>2 * PI\<close> as one full turn, so \<^verbatim>\<open>PI\<close> is the
  circle constant.
\<close>

definition PI :: real where
  "PI = pi"

text \<open>
  The implicit conversion of a floating-point value to \<^verbatim>\<open>int\<close> (the assignments to
  \<^verbatim>\<open>c\<close> in \<^verbatim>\<open>angCheck\<close>) discards the fractional part: it rounds toward zero.
\<close>

definition to_int :: "real \<Rightarrow> int" where
  "to_int v = (if 0 \<le> v then \<lfloor>v\<rfloor> else \<lceil>v\<rceil>)"

text \<open>
  The C library's \<^verbatim>\<open>atan2(y, x)\<close>: the angle of the vector \<open>(x, y)\<close>, in \<open>[-\<pi>, \<pi>]\<close>,
  with \<^verbatim>\<open>atan2(0, 0) = 0\<close>.
\<close>

definition atan2 :: "real \<Rightarrow> real \<Rightarrow> real" where
  "atan2 b a =
     (if 0 < a then arctan (b / a)
      else if a < 0 then (if 0 \<le> b then arctan (b / a) + pi else arctan (b / a) - pi)
      else if 0 < b then pi / 2
      else if b < 0 then - (pi / 2)
      else 0)"






subsection \<open>The angular interval test\<close>

text \<open>
  \<^verbatim>\<open>bool angCheck(float target_, float min_, float max_)\<close>, lines 33 to 64. The
  parameters \<^verbatim>\<open>target_\<close>, \<^verbatim>\<open>min_\<close>, \<^verbatim>\<open>max_\<close> are \<open>target0\<close>, \<open>min0\<close>, \<open>max0\<close>; the
  locals \<^verbatim>\<open>target\<close>, \<^verbatim>\<open>min\<close>, \<^verbatim>\<open>max\<close> are \<open>target1\<close>, \<open>min1\<close>, \<open>max1\<close>, and each
  \<^verbatim>\<open>+= 2 * PI\<close> gives the next index (\<open>max2\<close>, \<open>target2\<close>).
\<close>

definition angCheck :: "real \<Rightarrow> real \<Rightarrow> real \<Rightarrow> bool" where
  "angCheck target0 min0 max0 =
    (let c = to_int ((target0 + 2 * PI) / (2 * PI));
         target1 = target0 + real_of_int (1 - c) * PI * 2;
         c = to_int ((min0 + 2 * PI) / (2 * PI));
         min1 = min0 + real_of_int (1 - c) * PI * 2;
         c = to_int ((max0 + 2 * PI) / (2 * PI));
         max1 = max0 + real_of_int (1 - c) * PI * 2
     in if min0 * max0 > 0 then
          (if target1 > min1 \<and> target1 < max1 then True else False)
        else
          (let max2 = max1 + 2 * PI in
           if target1 > min1 \<and> target1 < max2 then True
           else (let target2 = target1 + 2 * PI in
                 if target2 > min1 \<and> target2 < max2 then True else False)))"

text \<open>
  The normalisation step that \<^verbatim>\<open>angCheck\<close> applies to each of its three arguments
  (lines 36-37, 38-39 and 40-41), taken on its own.
\<close>

definition normalize_angle :: "real \<Rightarrow> real" where
  "normalize_angle a = a + real_of_int (1 - to_int ((a + 2 * PI) / (2 * PI))) * PI * 2"

subsection \<open>Messages and the state of the reader\<close>

text \<open>
  The message types are declared outside the source file; the records hold the fields
  that the code reads or writes. \<^verbatim>\<open>geometry_msgs::Pose2D\<close> has the fields \<^verbatim>\<open>x\<close>, \<^verbatim>\<open>y\<close>,
  \<^verbatim>\<open>theta\<close>.
\<close>

type_synonym Time = nat

record Pose2D =
  pose_x :: real
  pose_y :: real
  pose_theta :: real

record RfidTag =
  tag_id :: string
  message :: string
  pose :: Pose2D

type_synonym RfidTagVector = "RfidTag list"

record RfidSensorMsg =
  maxRange :: real
  angleSpan :: real
  frequency :: real
  frame_id :: string
  sensor_pose :: Pose2D

text \<open>
  \<^verbatim>\<open>stdr_msgs::RfidSensorMeasurementMsg\<close>: \<^verbatim>\<open>header.stamp\<close>, \<^verbatim>\<open>header.frame_id\<close>,
  \<^verbatim>\<open>frame_id\<close> and \<^verbatim>\<open>rfid_tags\<close>.
\<close>

record RfidSensorMeasurementMsg =
  header_stamp :: Time
  header_frame_id :: string
  msg_frame_id :: string
  msg_rfid_tags :: "RfidTag list"

text \<open>
  \<^verbatim>\<open>_sensorTransform\<close>: what the code reads of it is \<^verbatim>\<open>getOrigin().x()\<close>,
  \<^verbatim>\<open>getOrigin().y()\<close> and \<^verbatim>\<open>tf::getYaw(getRotation())\<close>.
\<close>

record Transform =
  origin_x :: real
  origin_y :: real
  yaw :: real

text \<open>
  The members of \<^verbatim>\<open>RfidReader\<close> (those of its base class \<^verbatim>\<open>Sensor\<close> included), and
  what the object hands to the outside: \<open>published\<close> is the sequence of messages given
  to \<^verbatim>\<open>_publisher.publish\<close>, \<open>debug_log\<close> the sequence of \<^verbatim>\<open>ROS_DEBUG\<close> lines.
\<close>

record RfidReader =
  map_height :: nat
  map_width :: nat
  namespace :: string
  description :: RfidSensorMsg
  sensorTransform :: Transform
  gotTransform :: bool
  rfid_tags :: RfidTagVector
  published :: "RfidSensorMeasurementMsg list"
  debug_log :: "string list"

subsection \<open>The detection cycle\<close>

text \<open>
  The loop of lines 134 to 158 over \<^verbatim>\<open>rfid_tags_.rfid_tags\<close>, as a recursion over the
  tags that are still to visit; each \<^verbatim>\<open>continue\<close> is a recursive call that leaves the
  message as it is.
\<close>

fun scan_tags ::
  "RfidReader \<Rightarrow> real \<Rightarrow> real \<Rightarrow> real \<Rightarrow> RfidTag list \<Rightarrow>
     RfidSensorMeasurementMsg \<Rightarrow> RfidSensorMeasurementMsg" where
  "scan_tags s max_range min_angle max_angle [] measuredTagsMsg = measuredTagsMsg"
| "scan_tags s max_range min_angle max_angle (tag # tags) measuredTagsMsg =
     (let sensor_x = origin_x (sensorTransform s);
          sensor_y = origin_y (sensorTransform s);
          dist = sqrt ((sensor_x - pose_x (pose tag))\<^sup>2 + (sensor_y - pose_y (pose tag))\<^sup>2)
      in if dist > max_range then
           scan_tags s max_range min_angle max_angle tags measuredTagsMsg
         else
           (let ang = atan2 (pose_y (pose tag) - sensor_y) (pose_x (pose tag) - sensor_x)
            in if \<not> angCheck ang min_angle max_angle then
                 scan_tags s max_range min_angle max_angle tags measuredTagsMsg
               else
                 scan_tags s max_range min_angle max_angle tags
                   (measuredTagsMsg\<lparr>msg_rfid_tags := msg_rfid_tags measuredTagsMsg @ [tag]\<rparr>)))"

text \<open>
  \<^verbatim>\<open>void RfidReader::updateSensorCallback(const ros::TimerEvent&)\<close>, lines 113 to 163.
  The argument \<open>now\<close> is the value of \<^verbatim>\<open>ros::Time::now()\<close> at line 160.
\<close>

definition updateSensorCallback :: "Time \<Rightarrow> RfidReader \<Rightarrow> RfidReader" where
  "updateSensorCallback now s =
     (if \<not> gotTransform s then s
      else
        (let measuredTagsMsg =
               \<lparr>header_stamp = 0, header_frame_id = [],
                msg_frame_id = frame_id (description s), msg_rfid_tags = []\<rparr>
         in if map_height s = 0 \<or> map_width s = 0 then
              s\<lparr>debug_log := debug_log s @ [''In rfid reader : Outside limits'' @ [CHR 0x0A]]\<rparr>
            else
              (let max_range = maxRange (description s);
                   sensor_th = yaw (sensorTransform s);
                   min_angle = sensor_th - angleSpan (description s) / 2;
                   max_angle = sensor_th + angleSpan (description s) / 2;
                   measuredTagsMsg =
                     scan_tags s max_range min_angle max_angle (rfid_tags s) measuredTagsMsg;
                   measuredTagsMsg = measuredTagsMsg\<lparr>header_stamp := now\<rparr>;
                   measuredTagsMsg = measuredTagsMsg
                     \<lparr>header_frame_id := namespace s @ ''_'' @ frame_id (description s)\<rparr>
               in s\<lparr>published := published s @ [measuredTagsMsg]\<rparr>)))"

text \<open>
  \<^verbatim>\<open>getSensorPose\<close> and \<^verbatim>\<open>getFrameId\<close>, lines 169 to 181: they read the state only.
\<close>

definition getSensorPose :: "RfidReader \<Rightarrow> Pose2D" where
  "getSensorPose s = sensor_pose (description s)"

definition getFrameId :: "RfidReader \<Rightarrow> string" where
  "getFrameId s = namespace s @ ''_'' @ frame_id (description s)"

subsection \<open>The pose refresh and the tag registry update\<close>

text \<open>
  What the \<^verbatim>\<open>try\<close> block of \<^verbatim>\<open>updateTransform\<close> gets from the transform listener:
  \<^verbatim>\<open>lookupTransform\<close> either stores the transform it found, or one of the two calls
  throws a \<^verbatim>\<open>tf::TransformException\<close>, of which the handler reads \<^verbatim>\<open>what()\<close>.
\<close>

datatype lookup = Found Transform | TransformException string

text \<open>\<^verbatim>\<open>void RfidReader::updateTransform(const ros::TimerEvent&)\<close>, lines 187 to 209.\<close>

definition updateTransform :: "lookup \<Rightarrow> RfidReader \<Rightarrow> RfidReader" where
  "updateTransform r s =
     (case r of
        Found t \<Rightarrow> s\<lparr>sensorTransform := t, gotTransform := True\<rparr>
      | TransformException what \<Rightarrow> s\<lparr>debug_log := debug_log s @ [what]\<rparr>)"

text \<open>\<^verbatim>\<open>void RfidReader::receiveRfids(const stdr_msgs::RfidTagVector& msg)\<close>, lines 214 to 217.\<close>

definition receiveRfids :: "RfidTagVector \<Rightarrow> RfidReader \<Rightarrow> RfidReader" where
  "receiveRfids msg s = s\<lparr>rfid_tags := msg\<rparr>"

text \<open>
  The callbacks run one at a time, each to its end (the constructor registers the two
  timers and the subscriber, lines 82 to 97): a run of the reader is a sequence of
  events, each of which calls one callback.
\<close>

datatype event =
    SensorTimer Time
  | TfTimer lookup
  | RfidList RfidTagVector

fun step :: "event \<Rightarrow> RfidReader \<Rightarrow> RfidReader" where
  "step (SensorTimer now) s = updateSensorCallback now s"
| "step (TfTimer r) s = updateTransform r s"
| "step (RfidList msg) s = receiveRfids msg s"

definition run :: "event list \<Rightarrow> RfidReader \<Rightarrow> RfidReader" where
  "run es s = fold step es s"

subsection \<open>Quantities of one tag\<close>

text \<open>
  The distance and the bearing that the loop body computes for a tag (lines 139 to 142
  and 149 to 150), and the two bounds of the cone (lines 130 and 131).
\<close>

definition tag_dist :: "RfidReader \<Rightarrow> RfidTag \<Rightarrow> real" where
  "tag_dist s tag =
     sqrt ((origin_x (sensorTransform s) - pose_x (pose tag))\<^sup>2
         + (origin_y (sensorTransform s) - pose_y (pose tag))\<^sup>2)"

definition tag_ang :: "RfidReader \<Rightarrow> RfidTag \<Rightarrow> real" where
  "tag_ang s tag =
     atan2 (pose_y (pose tag) - origin_y (sensorTransform s))
           (pose_x (pose tag) - origin_x (sensorTransform s))"

definition min_angle_of :: "RfidReader \<Rightarrow> real" where
  "min_angle_of s = yaw (sensorTransform s) - angleSpan (description s) / 2"

definition max_angle_of :: "RfidReader \<Rightarrow> real" where
  "max_angle_of s = yaw (sensorTransform s) + angleSpan (description s) / 2"

text \<open>
  The condition under which the loop body appends a tag: neither \<^verbatim>\<open>continue\<close> is
  taken, with \<open>max_range\<close>, \<open>min_angle\<close> and \<open>max_angle\<close> as the callback computes them
  (lines 128 to 131).
\<close>

definition detects :: "RfidReader \<Rightarrow> RfidTag \<Rightarrow> bool" where
  "detects s tag =
     (\<not> tag_dist s tag > maxRange (description s)
      \<and> angCheck (tag_ang s tag) (min_angle_of s) (max_angle_of s))"

text \<open>The events that replace the cached transform: the pose lookups that succeed.\<close>

fun refreshes :: "event \<Rightarrow> bool" where
  "refreshes (TfTimer (Found t)) = True"
| "refreshes e = False"

subsection \<open>The detection cycle in single precision\<close>








subsection \<open>A concrete reader\<close>

text \<open>
  The reader of the spec's end-to-end scenario, for the concrete instances below: the
  sensor at the origin with heading 0, a field of view of 1 rad, a maximal range of 10,
  a pose already acquired, a map of 100 by 100 cells, nothing published yet.
\<close>

definition tag_at :: "string \<Rightarrow> real \<Rightarrow> real \<Rightarrow> RfidTag" where
  "tag_at name a b =
     \<lparr>tag_id = name, message = [], pose = \<lparr>pose_x = a, pose_y = b, pose_theta = 0\<rparr>\<rparr>"

definition scenario_reader :: "RfidTagVector \<Rightarrow> RfidReader" where
  "scenario_reader tags =
     \<lparr>map_height = 100, map_width = 100, namespace = ''robot0'',
      description =
        \<lparr>maxRange = 10, angleSpan = 1, frequency = 10, frame_id = ''rfid_reader_0'',
         sensor_pose = \<lparr>pose_x = 0, pose_y = 0, pose_theta = 0\<rparr>\<rparr>,
      sensorTransform = \<lparr>origin_x = 0, origin_y = 0, yaw = 0\<rparr>,
      gotTransform = True, rfid_tags = tags, published = [], debug_log = []\<rparr>"

section \<open>Properties of the angular interval test\<close>

text \<open>
  Two bounds on the circle constant: \<open>sin (\<pi>/6) = 1/2\<close> and \<open>sin x < x\<close> give the
  lower one.
\<close>

lemma PI_gt_3: "3 < PI"
proof -
  have s: "sin (pi / 12) \<le> pi / 12"
    by (rule sin_x_le_x) simp
  have s0: "0 < sin (pi / 12)"
    by (rule sin_gt_zero) simp_all
  have c: "cos (pi / 12) < 1"
    using cos_monotone_0_pi [of 0 "pi / 12"] by simp
  have "sin (pi / 12) * cos (pi / 12) < sin (pi / 12) * 1"
    using s0 c by (rule mult_strict_left_mono [rotated])
  moreover have "sin (pi / 6) = 2 * sin (pi / 12) * cos (pi / 12)"
    using sin_double [of "pi / 12"] by simp
  ultimately have "1 / 2 < 2 * sin (pi / 12)"
    by (simp add: sin_30)
  then show ?thesis
    using s unfolding PI_def by linarith
qed

lemma PI_less_4: "PI < 4"
  by (simp add: PI_def pi_less_4)

lemma PI_pos: "0 < PI"
  using PI_gt_3 by linarith

text \<open>\<^verbatim>\<open>angCheck\<close> in terms of the normalisation step.\<close>

lemma angCheck_normalize:
  "angCheck t mn mx =
     (if mn * mx > 0 then
        normalize_angle t > normalize_angle mn \<and> normalize_angle t < normalize_angle mx
      else
        (normalize_angle t > normalize_angle mn \<and> normalize_angle t < normalize_angle mx + 2 * PI)
      \<or> (normalize_angle t + 2 * PI > normalize_angle mn
           \<and> normalize_angle t + 2 * PI < normalize_angle mx + 2 * PI))"
  by (simp add: angCheck_def normalize_angle_def Let_def)

lemma to_int_unit: "0 \<le> v \<Longrightarrow> v < 1 \<Longrightarrow> to_int v = 0"
  by (simp add: to_int_def floor_eq_iff)

lemma to_int_neg_unit: "- 1 < v \<Longrightarrow> v < 0 \<Longrightarrow> to_int v = 0"
  unfolding to_int_def by (simp add: ceiling_unique)

text \<open>Below zero, down to two turns, the step adds one turn.\<close>

lemma normalize_angle_neg:
  assumes "- (4 * PI) < a" "a < 0"
  shows "normalize_angle a = a + 2 * PI"
proof -
  let ?q = "(a + 2 * PI) / (2 * PI)"
  have "- 1 < ?q"
    using assms PI_pos by (simp add: field_simps)
  moreover have "?q < 1"
    using assms PI_pos by (simp add: field_simps)
  ultimately have "to_int ?q = 0"
    using to_int_unit [of ?q] to_int_neg_unit [of ?q] by linarith
  then show ?thesis
    by (simp add: normalize_angle_def)
qed

text \<open>From zero on, the step subtracts the whole turns.\<close>

lemma normalize_angle_nonneg:
  assumes "0 \<le> a"
  shows "normalize_angle a = a - real_of_int \<lfloor>a / (2 * PI)\<rfloor> * (2 * PI)"
proof -
  have q: "(a + 2 * PI) / (2 * PI) = a / (2 * PI) + 1"
    using PI_pos by (simp add: field_simps)
  have "0 \<le> a / (2 * PI)"
    using assms PI_pos by simp
  then have "to_int ((a + 2 * PI) / (2 * PI)) = \<lfloor>a / (2 * PI)\<rfloor> + 1"
    unfolding q to_int_def by simp
  then show ?thesis
    by (simp add: normalize_angle_def algebra_simps)
qed

lemma normalize_angle_id:
  assumes "0 \<le> a" "a < 2 * PI"
  shows "normalize_angle a = a"
proof -
  have "\<lfloor>a / (2 * PI)\<rfloor> = 0"
    using assms PI_pos by (simp add: floor_eq_iff)
  then show ?thesis
    using normalize_angle_nonneg [OF assms(1)] by simp
qed

lemma normalize_angle_3: "normalize_angle 3 = 3"
  using PI_gt_3 by (simp add: normalize_angle_id)

lemma normalize_angle_0: "normalize_angle 0 = 0"
  using PI_gt_3 by (simp add: normalize_angle_id)

lemma normalize_angle_314: "normalize_angle 3.14 = 3.14"
  using PI_gt_3 by (simp add: normalize_angle_id)

lemma normalize_angle_minus_3: "normalize_angle (- 3) = 2 * PI - 3"
  using PI_gt_3 by (simp add: normalize_angle_neg)

lemma angCheck_314_cone_3_minus_3: "angCheck 3.14 3 (- 3)"
  unfolding angCheck_normalize normalize_angle_3 normalize_angle_314 normalize_angle_minus_3
  using PI_gt_3 by simp

lemma angCheck_0_cone_3_minus_3: "angCheck 0 3 (- 3)"
  unfolding angCheck_normalize normalize_angle_3 normalize_angle_0 normalize_angle_minus_3
  using PI_gt_3 by simp

text \<open>
  Claim C1, as the spec states it: for the cone \<open>min = 3.0\<close>, \<open>max = -3.0\<close> the test
  answers true for the target \<open>3.14\<close> and false for the target \<open>0.0\<close>. The code
  answers true for both: the second answer of the claim is not the code's.
\<close>

theorem C1_counterexample:
  "\<not> (angCheck 3.14 3.0 (- 3.0) = True \<and> angCheck 0.0 3.0 (- 3.0) = False)"
  using angCheck_0_cone_3_minus_3 by simp

text \<open>
  Claim C1, amended: for the bounds \<open>min = 3.0\<close>, \<open>max = -3.0\<close> the test answers true
  for the target \<open>3.14\<close> and true for the target \<open>0.0\<close> as well. The bounds are in the
  wrong order for the function, which supposes \<open>min < max\<close>: with the normalised
  \<open>min = 3\<close> below the normalised \<open>max = 2\<pi> - 3\<close> and the product of the bounds
  negative, the second branch accepts these two targets.
\<close>

theorem C1_cone_3_minus_3:
  "angCheck 3.14 3.0 (- 3.0) = True \<and> angCheck 0.0 3.0 (- 3.0) = True"
  using angCheck_314_cone_3_minus_3 angCheck_0_cone_3_minus_3 by simp

subsection \<open>The normalisation step\<close>









subsection \<open>Targets on the bounds\<close>

text \<open>
  A target equal to one of the bounds is accepted exactly in the second branch, when
  the normalised \<open>min\<close> is below the normalised \<open>max\<close>.
\<close>

lemma angCheck_at_min:
  "angCheck mn mn mx = (\<not> mn * mx > 0 \<and> normalize_angle mn < normalize_angle mx)"
  using PI_pos by (auto simp add: angCheck_normalize)

lemma angCheck_at_max:
  "angCheck mx mn mx = (\<not> mn * mx > 0 \<and> normalize_angle mn < normalize_angle mx)"
  using PI_pos by (auto simp add: angCheck_normalize)

text \<open>
  The cones that the caller builds around a heading, when they reach across the angle
  zero: \<open>min\<close> negative, \<open>max\<close> not negative, at most 6 rad wide.
\<close>

lemma wrap_cone_normalized:
  assumes "- 6 \<le> mn" "mn \<le> - (1 / 1000)" "0 \<le> mx" "mx - mn \<le> 6"
  shows "normalize_angle mx \<le> normalize_angle mn"
proof -
  have "normalize_angle mn = mn + 2 * PI"
    using assms PI_gt_3 by (intro normalize_angle_neg) simp_all
  moreover have "normalize_angle mx = mx"
    using assms PI_gt_3 by (intro normalize_angle_id) simp_all
  ultimately show ?thesis
    using assms PI_gt_3 by simp
qed

lemma angCheck_3_3_minus_3: "angCheck 3 3 (- 3)"
  unfolding angCheck_at_min normalize_angle_3 normalize_angle_minus_3
  using PI_gt_3 by simp

text \<open>
  With a bound that is exactly zero the product of the bounds is zero, the second
  branch is taken, and both bounds of the cone \<open>(0, 0.5)\<close> are accepted.
\<close>

lemma angCheck_0_0_half: "angCheck 0 0 0.5 \<and> angCheck 0.5 0 0.5"
proof -
  have "normalize_angle 0.5 = 0.5"
    using PI_gt_3 by (simp add: normalize_angle_id)
  then show ?thesis
    unfolding angCheck_at_min angCheck_at_max normalize_angle_0 by simp
qed

text \<open>
  Claim C3, as the spec states it: for every \<open>min\<close> and \<open>max\<close>, a target equal to
  \<open>min\<close> or to \<open>max\<close> is not contained. For the bounds \<open>min = 3\<close>, \<open>max = -3\<close> the code
  accepts the target \<open>3\<close>.
\<close>

theorem C3_counterexample:
  "\<not> (angCheck 3 3 (- 3) = False \<and> angCheck (- 3) 3 (- 3) = False)"
  using angCheck_3_3_minus_3 by simp

text \<open>
  Claim C3, amended: a target exactly equal to \<open>min\<close> or to \<open>max\<close> is not contained in
  two cases. First, when \<open>min\<close> and \<open>max\<close> have the same sign, with a product of at least
  \<open>10\<^sup>-\<^sup>3\<^sup>0\<close> (so that the product is positive in single precision as well) and with
  magnitudes of at most \<open>10\<^sup>9\<close> (so that the conversions to \<^verbatim>\<open>int\<close> are defined).
  Second, for a cone that reaches across the angle zero, with \<open>-6 \<le> min \<le> -0.001\<close>,
  \<open>0 \<le> max\<close> and \<open>max - min \<le> 6\<close>.
\<close>

theorem C3_bounds_exclusive:
  assumes "(1 / 10 ^ 30 \<le> min0 * max0 \<and> \<bar>min0\<bar> \<le> 10 ^ 9 \<and> \<bar>max0\<bar> \<le> 10 ^ 9)
     \<or> (- 6 \<le> min0 \<and> min0 \<le> - (1 / 1000) \<and> 0 \<le> max0 \<and> max0 - min0 \<le> 6)"
  shows "angCheck min0 min0 max0 = False \<and> angCheck max0 min0 max0 = False"
  using assms
proof
  assume "1 / 10 ^ 30 \<le> min0 * max0 \<and> \<bar>min0\<bar> \<le> 10 ^ 9 \<and> \<bar>max0\<bar> \<le> 10 ^ 9"
  then have "0 < min0 * max0"
    by (smt (verit) divide_pos_pos zero_less_power)
  then show ?thesis
    unfolding angCheck_at_min angCheck_at_max by simp
next
  assume "- 6 \<le> min0 \<and> min0 \<le> - (1 / 1000) \<and> 0 \<le> max0 \<and> max0 - min0 \<le> 6"
  then have "normalize_angle max0 \<le> normalize_angle min0"
    by (intro wrap_cone_normalized) simp_all
  then show ?thesis
    unfolding angCheck_at_min angCheck_at_max by simp
qed

text \<open>
  Claim C3, amended, at the cone \<open>min = 1\<close>, \<open>max = 2\<close> and at the cone \<open>min = -0.5\<close>,
  \<open>max = 0.5\<close>.
\<close>

theorem C3_bounds_exclusive_witness:
  "((1 / 10 ^ 30 \<le> (1::real) * 2 \<and> \<bar>1::real\<bar> \<le> 10 ^ 9 \<and> \<bar>2::real\<bar> \<le> 10 ^ 9)
     \<or> (- 6 \<le> (1::real) \<and> (1::real) \<le> - (1 / 1000) \<and> 0 \<le> (2::real) \<and> (2::real) - 1 \<le> 6))
   \<and> angCheck 1 1 2 = False \<and> angCheck 2 1 2 = False
   \<and> ((1 / 10 ^ 30 \<le> (- 0.5::real) * 0.5 \<and> \<bar>- 0.5::real\<bar> \<le> 10 ^ 9 \<and> \<bar>0.5::real\<bar> \<le> 10 ^ 9)
     \<or> (- 6 \<le> (- 0.5::real) \<and> (- 0.5::real) \<le> - (1 / 1000) \<and> 0 \<le> (0.5::real)
          \<and> (0.5::real) - (- 0.5) \<le> 6))
   \<and> angCheck (- 0.5) (- 0.5) 0.5 = False \<and> angCheck 0.5 (- 0.5) 0.5 = False"
proof -
  have h1: "(1 / 10 ^ 30 \<le> (1::real) * 2 \<and> \<bar>1::real\<bar> \<le> 10 ^ 9 \<and> \<bar>2::real\<bar> \<le> 10 ^ 9)
     \<or> (- 6 \<le> (1::real) \<and> (1::real) \<le> - (1 / 1000) \<and> 0 \<le> (2::real) \<and> (2::real) - 1 \<le> 6)"
    by simp
  have h2: "(1 / 10 ^ 30 \<le> (- 0.5::real) * 0.5 \<and> \<bar>- 0.5::real\<bar> \<le> 10 ^ 9 \<and> \<bar>0.5::real\<bar> \<le> 10 ^ 9)
     \<or> (- 6 \<le> (- 0.5::real) \<and> (- 0.5::real) \<le> - (1 / 1000) \<and> 0 \<le> (0.5::real)
          \<and> (0.5::real) - (- 0.5) \<le> 6)"
    by simp
  show ?thesis
    using h1 h2 C3_bounds_exclusive [OF h1] C3_bounds_exclusive [OF h2] by blast
qed

text \<open>
  A cone that reaches across the angle \<open>\<pi>\<close>, with its bounds in the order that the
  function supposes: the targets \<open>3.14\<close> and \<open>-3\<close> are inside, the target \<open>0\<close> is not.
\<close>

lemma angCheck_cone_across_pi: "angCheck 3.14 3 5 \<and> angCheck (- 3) 3 5 \<and> \<not> angCheck 0 3 5"
proof -
  have n5: "normalize_angle 5 = 5"
    using PI_gt_3 by (simp add: normalize_angle_id)
  have "angCheck 3.14 3 5"
    unfolding angCheck_normalize normalize_angle_3 normalize_angle_314 n5 by simp
  moreover have "angCheck (- 3) 3 5"
    unfolding angCheck_normalize normalize_angle_3 normalize_angle_minus_3 n5
    using PI_gt_3 PI_less_4 by simp
  moreover have "\<not> angCheck 0 3 5"
    unfolding angCheck_normalize normalize_angle_3 normalize_angle_0 n5 by simp
  ultimately show ?thesis
    by simp
qed

section \<open>Properties of the callbacks\<close>

subsection \<open>The loop and the three outcomes of a detection cycle\<close>

text \<open>The loop appends, in the order of the registry, the tags that pass both tests.\<close>

lemma scan_tags_eq:
  "scan_tags s mr mn mx tags m =
     m\<lparr>msg_rfid_tags := msg_rfid_tags m
        @ filter (\<lambda>tag. \<not> tag_dist s tag > mr \<and> angCheck (tag_ang s tag) mn mx) tags\<rparr>"
  by (induction tags arbitrary: m) (simp_all add: Let_def tag_dist_def tag_ang_def)

lemma updateSensorCallback_not_ready:
  "\<not> gotTransform s \<Longrightarrow> updateSensorCallback now s = s"
  by (simp add: updateSensorCallback_def)

lemma updateSensorCallback_no_map:
  "gotTransform s \<Longrightarrow> map_height s = 0 \<or> map_width s = 0 \<Longrightarrow>
     updateSensorCallback now s =
       s\<lparr>debug_log := debug_log s @ [''In rfid reader : Outside limits'' @ [CHR 0x0A]]\<rparr>"
  by (simp add: updateSensorCallback_def)

lemma updateSensorCallback_ready:
  assumes "gotTransform s" "map_height s \<noteq> 0" "map_width s \<noteq> 0"
  shows "updateSensorCallback now s =
     s\<lparr>published := published s @
        [\<lparr>header_stamp = now,
          header_frame_id = namespace s @ ''_'' @ frame_id (description s),
          msg_frame_id = frame_id (description s),
          msg_rfid_tags = filter (detects s) (rfid_tags s)\<rparr>]\<rparr>"
proof -
  have d: "detects s = (\<lambda>tag. \<not> tag_dist s tag > maxRange (description s)
      \<and> angCheck (tag_ang s tag) (min_angle_of s) (max_angle_of s))"
    by (rule ext) (simp add: detects_def)
  show ?thesis
    using assms
    by (simp add: updateSensorCallback_def Let_def scan_tags_eq d min_angle_of_def
        max_angle_of_def)
qed

lemma scenario_reader_simps:
  "gotTransform (scenario_reader tags)" "map_height (scenario_reader tags) = 100"
  "map_width (scenario_reader tags) = 100"
  "origin_x (sensorTransform (scenario_reader tags)) = 0"
  "origin_y (sensorTransform (scenario_reader tags)) = 0"
  "yaw (sensorTransform (scenario_reader tags)) = 0"
  "angleSpan (description (scenario_reader tags)) = 1"
  "maxRange (description (scenario_reader tags)) = 10"
  "rfid_tags (scenario_reader tags) = tags"
  "published (scenario_reader tags) = []"
  "namespace (scenario_reader tags) = ''robot0''"
  "frame_id (description (scenario_reader tags)) = ''rfid_reader_0''"
  by (simp_all add: scenario_reader_def)

lemma tag_at_simps:
  "pose_x (pose (tag_at name a b)) = a" "pose_y (pose (tag_at name a b)) = b"
  by (simp_all add: tag_at_def)

subsection \<open>The readiness gate\<close>

text \<open>
  Claim C6: while the readiness flag is false, every invocation of the detection cycle
  does nothing, for any number of invocations: the state after them, the published
  reports and the debug lines included, is the state before them.
\<close>

theorem C6_readiness_gate:
  assumes "\<not> gotTransform s"
  shows "fold updateSensorCallback nows s = s"
  using assms by (induction nows) (simp_all add: updateSensorCallback_not_ready)

text \<open>Claim C6, at the concrete reader before its first pose, for three timer ticks.\<close>

theorem C6_readiness_gate_witness:
  "\<not> gotTransform ((scenario_reader [tag_at ''A'' 5 0])\<lparr>gotTransform := False\<rparr>)
   \<and> fold updateSensorCallback [1, 2, 3]
        ((scenario_reader [tag_at ''A'' 5 0])\<lparr>gotTransform := False\<rparr>)
       = (scenario_reader [tag_at ''A'' 5 0])\<lparr>gotTransform := False\<rparr>"
proof -
  have h: "\<not> gotTransform ((scenario_reader [tag_at ''A'' 5 0])\<lparr>gotTransform := False\<rparr>)"
    by simp
  show ?thesis
    using h C6_readiness_gate [OF h, of "[1, 2, 3]"] by simp
qed

subsection \<open>The pose refresh\<close>

text \<open>
  Claim C8: when the pose refresh fails, the cached transform and the readiness flag
  are as they were before the attempt, and the only effect is the debug line; when it
  succeeds, the cached transform is the one found and the readiness flag is set.
\<close>

theorem C8_updateTransform:
  "sensorTransform (updateTransform (TransformException what) s) = sensorTransform s
   \<and> gotTransform (updateTransform (TransformException what) s) = gotTransform s
   \<and> updateTransform (TransformException what) s = s\<lparr>debug_log := debug_log s @ [what]\<rparr>
   \<and> sensorTransform (updateTransform (Found t) s) = t
   \<and> gotTransform (updateTransform (Found t) s) = True
   \<and> updateTransform (Found t) s = s\<lparr>sensorTransform := t, gotTransform := True\<rparr>"
  by (simp add: updateTransform_def)

subsection \<open>The scenario of the spec\<close>

lemma normalize_angle_half: "normalize_angle (1 / 2) = 1 / 2"
  using PI_gt_3 by (simp add: normalize_angle_id)

lemma normalize_angle_minus_half: "normalize_angle (- (1 / 2)) = 2 * PI - 1 / 2"
  using PI_gt_3 by (simp add: normalize_angle_neg)

lemma normalize_angle_quarter_turn: "normalize_angle (pi / 4) = pi / 4"
  using PI_gt_3 by (intro normalize_angle_id) (simp_all add: PI_def)

lemma angCheck_0_cone_half: "angCheck 0 (- (1 / 2)) (1 / 2)"
  unfolding angCheck_normalize normalize_angle_0 normalize_angle_half normalize_angle_minus_half
  using PI_gt_3 by simp

lemma angCheck_quarter_cone_half: "\<not> angCheck (pi / 4) (- (1 / 2)) (1 / 2)"
  unfolding angCheck_normalize normalize_angle_quarter_turn normalize_angle_half
    normalize_angle_minus_half
  using PI_gt_3 by (simp add: PI_def)

text \<open>
  For a sensor at the origin with heading 0, a field of view of 1 rad and a maximal
  range of 10, the two tests of the loop body read as follows.
\<close>

lemma detects_scenario:
  assumes "origin_x (sensorTransform s) = 0" "origin_y (sensorTransform s) = 0"
    "yaw (sensorTransform s) = 0" "angleSpan (description s) = 1"
    "maxRange (description s) = 10"
  shows "detects s tag =
     (\<not> sqrt ((pose_x (pose tag))\<^sup>2 + (pose_y (pose tag))\<^sup>2) > 10
      \<and> angCheck (atan2 (pose_y (pose tag)) (pose_x (pose tag))) (- (1 / 2)) (1 / 2))"
  using assms
  by (simp add: detects_def tag_dist_def tag_ang_def min_angle_of_def max_angle_of_def)

lemma detects_scenario_5_0:
  assumes "origin_x (sensorTransform s) = 0" "origin_y (sensorTransform s) = 0"
    "yaw (sensorTransform s) = 0" "angleSpan (description s) = 1"
    "maxRange (description s) = 10"
    "pose_x (pose tag) = 5" "pose_y (pose tag) = 0"
  shows "detects s tag"
  unfolding detects_scenario [OF assms(1-5)] assms(6,7)
  by (simp add: atan2_def angCheck_0_cone_half)

lemma detects_scenario_10_0:
  assumes "origin_x (sensorTransform s) = 0" "origin_y (sensorTransform s) = 0"
    "yaw (sensorTransform s) = 0" "angleSpan (description s) = 1"
    "maxRange (description s) = 10"
    "pose_x (pose tag) = 10" "pose_y (pose tag) = 0"
  shows "detects s tag"
  unfolding detects_scenario [OF assms(1-5)] assms(6,7)
  by (simp add: atan2_def angCheck_0_cone_half)

lemma detects_scenario_5_5:
  assumes "origin_x (sensorTransform s) = 0" "origin_y (sensorTransform s) = 0"
    "yaw (sensorTransform s) = 0" "angleSpan (description s) = 1"
    "maxRange (description s) = 10"
    "pose_x (pose tag) = 5" "pose_y (pose tag) = 5"
  shows "\<not> detects s tag"
  unfolding detects_scenario [OF assms(1-5)] assms(6,7)
  by (simp add: atan2_def arctan_one angCheck_quarter_cone_half)

lemma detects_scenario_20_0:
  assumes "origin_x (sensorTransform s) = 0" "origin_y (sensorTransform s) = 0"
    "yaw (sensorTransform s) = 0" "angleSpan (description s) = 1"
    "maxRange (description s) = 10"
    "pose_x (pose tag) = 20" "pose_y (pose tag) = 0"
  shows "\<not> detects s tag"
  unfolding detects_scenario [OF assms(1-5)] assms(6,7)
  by simp

text \<open>
  Claim C4: with the sensor at the origin, heading 0, a field of view of 1 rad and a
  maximal range of 10, a detection cycle over the tags \<open>A\<close> at \<open>(5, 0)\<close>, \<open>B\<close> at
  \<open>(5, 5)\<close> and \<open>C\<close> at \<open>(20, 0)\<close> publishes one report, whose detection list is
  exactly \<open>[A]\<close>.
\<close>

theorem C4_end_to_end:
  assumes "gotTransform s" "map_height s \<noteq> 0" "map_width s \<noteq> 0"
    and "origin_x (sensorTransform s) = 0" "origin_y (sensorTransform s) = 0"
    and "yaw (sensorTransform s) = 0"
    and "angleSpan (description s) = 1" "maxRange (description s) = 10"
    and "rfid_tags s = [A, B, C]"
    and "pose_x (pose A) = 5" "pose_y (pose A) = 0"
    and "pose_x (pose B) = 5" "pose_y (pose B) = 5"
    and "pose_x (pose C) = 20" "pose_y (pose C) = 0"
  shows "published (updateSensorCallback now s) =
     published s @
       [\<lparr>header_stamp = now,
         header_frame_id = namespace s @ ''_'' @ frame_id (description s),
         msg_frame_id = frame_id (description s),
         msg_rfid_tags = [A]\<rparr>]"
proof -
  note sc = assms(4-8)
  have "detects s A"
    using sc assms(10,11) by (rule detects_scenario_5_0)
  moreover have "\<not> detects s B"
    using sc assms(12,13) by (rule detects_scenario_5_5)
  moreover have "\<not> detects s C"
    using sc assms(14,15) by (rule detects_scenario_20_0)
  ultimately show ?thesis
    unfolding updateSensorCallback_ready [OF assms(1-3)] assms(9) by simp
qed

text \<open>Claim C4, at the concrete reader with the three tags, at time 7.\<close>

theorem C4_end_to_end_witness:
  "gotTransform (scenario_reader [tag_at ''A'' 5 0, tag_at ''B'' 5 5, tag_at ''C'' 20 0])
   \<and> map_height (scenario_reader [tag_at ''A'' 5 0, tag_at ''B'' 5 5, tag_at ''C'' 20 0]) \<noteq> 0
   \<and> map_width (scenario_reader [tag_at ''A'' 5 0, tag_at ''B'' 5 5, tag_at ''C'' 20 0]) \<noteq> 0
   \<and> published (updateSensorCallback 7
        (scenario_reader [tag_at ''A'' 5 0, tag_at ''B'' 5 5, tag_at ''C'' 20 0])) =
       [\<lparr>header_stamp = 7, header_frame_id = ''robot0_rfid_reader_0'',
         msg_frame_id = ''rfid_reader_0'', msg_rfid_tags = [tag_at ''A'' 5 0]\<rparr>]"
  using C4_end_to_end [of "scenario_reader [tag_at ''A'' 5 0, tag_at ''B'' 5 5, tag_at ''C'' 20 0]"
      "tag_at ''A'' 5 0" "tag_at ''B'' 5 5" "tag_at ''C'' 20 0" 7]
  by (simp add: scenario_reader_simps tag_at_simps)

subsection \<open>Rounding to single and double precision\<close>















subsection \<open>The range gate\<close>















subsection \<open>The tag registry update\<close>

lemma detects_receiveRfids: "detects (receiveRfids msg s) = detects s"
  by (rule ext) (simp add: detects_def receiveRfids_def tag_dist_def tag_ang_def
      min_angle_of_def max_angle_of_def)

text \<open>
  Claim C7: each tag registry update replaces the cached tag set as a whole. After an
  update \<open>u2\<close> that follows an update \<open>u1\<close> the cached set is \<open>u2\<close>, a detection cycle
  does what it does after \<open>u2\<close> alone, and the report of a cycle that publishes lists the
  tags of \<open>u2\<close> that pass the two tests, in the order of \<open>u2\<close>: nothing of \<open>u1\<close> is left.
\<close>

theorem C7_full_set_replacement:
  "rfid_tags (receiveRfids u2 (receiveRfids u1 s)) = u2
   \<and> updateSensorCallback now (receiveRfids u2 (receiveRfids u1 s))
       = updateSensorCallback now (receiveRfids u2 s)
   \<and> (gotTransform s \<and> map_height s \<noteq> 0 \<and> map_width s \<noteq> 0 \<longrightarrow>
        published (updateSensorCallback now (receiveRfids u2 (receiveRfids u1 s)))
          = published s @
            [\<lparr>header_stamp = now,
              header_frame_id = namespace s @ ''_'' @ frame_id (description s),
              msg_frame_id = frame_id (description s),
              msg_rfid_tags = filter (detects s) u2\<rparr>])"
proof -
  have e: "receiveRfids u2 (receiveRfids u1 s) = receiveRfids u2 s"
    by (simp add: receiveRfids_def)
  have r: "rfid_tags (receiveRfids u2 s) = u2"
    by (simp add: receiveRfids_def)
  have p: "published (updateSensorCallback now (receiveRfids u2 s))
          = published s @
            [\<lparr>header_stamp = now,
              header_frame_id = namespace s @ ''_'' @ frame_id (description s),
              msg_frame_id = frame_id (description s),
              msg_rfid_tags = filter (detects s) u2\<rparr>]"
    if "gotTransform s" "map_height s \<noteq> 0" "map_width s \<noteq> 0"
  proof -
    have "gotTransform (receiveRfids u2 s)" "map_height (receiveRfids u2 s) \<noteq> 0"
      "map_width (receiveRfids u2 s) \<noteq> 0"
      using that by (simp_all add: receiveRfids_def)
    from updateSensorCallback_ready [OF this, of now] show ?thesis
      by (simp add: detects_receiveRfids r) (simp add: receiveRfids_def)
  qed
  show ?thesis
    unfolding e using r p by simp
qed

text \<open>
  Claim C7, at the concrete reader: after the update \<open>[A]\<close> and then the update \<open>[D]\<close>,
  with both tags in view, the report lists \<open>D\<close> only.
\<close>

theorem C7_full_set_replacement_witness:
  "gotTransform (scenario_reader []) \<and> map_height (scenario_reader []) \<noteq> 0
   \<and> map_width (scenario_reader []) \<noteq> 0
   \<and> published (updateSensorCallback 7
        (receiveRfids [tag_at ''D'' 10 0] (receiveRfids [tag_at ''A'' 5 0] (scenario_reader [])))) =
       [\<lparr>header_stamp = 7, header_frame_id = ''robot0_rfid_reader_0'',
         msg_frame_id = ''rfid_reader_0'', msg_rfid_tags = [tag_at ''D'' 10 0]\<rparr>]"
proof -
  have "detects (scenario_reader []) (tag_at ''D'' 10 0)"
    by (rule detects_scenario_10_0) (simp_all add: scenario_reader_simps tag_at_simps)
  then show ?thesis
    using C7_full_set_replacement [of "[tag_at ''D'' 10 0]" "[tag_at ''A'' 5 0]"
        "scenario_reader []" 7, THEN conjunct2, THEN conjunct2]
    by (simp add: scenario_reader_simps)
qed

subsection \<open>Runs of the reader\<close>

lemma step_gotTransform: "gotTransform s \<Longrightarrow> gotTransform (step e s)"
  by (cases e)
     (simp_all add: updateSensorCallback_def updateTransform_def receiveRfids_def Let_def
        split: lookup.splits)

lemma step_fixed:
  "map_height (step e s) = map_height s \<and> map_width (step e s) = map_width s
   \<and> namespace (step e s) = namespace s \<and> description (step e s) = description s"
  by (cases e)
     (simp_all add: updateSensorCallback_def updateTransform_def receiveRfids_def Let_def
        split: lookup.splits)

lemma step_sensorTransform:
  "\<not> refreshes e \<Longrightarrow> sensorTransform (step e s) = sensorTransform s"
  by (cases e rule: refreshes.cases)
     (simp_all add: updateSensorCallback_def updateTransform_def receiveRfids_def Let_def)

lemma run_gotTransform: "gotTransform s \<Longrightarrow> gotTransform (run es s)"
  unfolding run_def by (induction es arbitrary: s) (simp_all add: step_gotTransform)

lemma run_fixed:
  "map_height (run es s) = map_height s \<and> map_width (run es s) = map_width s
   \<and> namespace (run es s) = namespace s \<and> description (run es s) = description s"
  unfolding run_def by (induction es arbitrary: s) (simp_all add: step_fixed)

lemma run_sensorTransform:
  "\<forall>e\<in>set es. \<not> refreshes e \<Longrightarrow> sensorTransform (run es s) = sensorTransform s"
  unfolding run_def by (induction es arbitrary: s) (simp_all add: step_sensorTransform)

lemma detects_cong:
  "sensorTransform s' = sensorTransform s \<Longrightarrow> description s' = description s \<Longrightarrow>
     detects s' = detects s"
  by (rule ext) (simp add: detects_def tag_dist_def tag_ang_def min_angle_of_def max_angle_of_def)

text \<open>
  Claim C9: the readiness flag is monotone. Once it is true, it is true after every
  sequence of callbacks. If moreover none of the pose lookups in the sequence succeeds,
  the cached transform is still the one from before, and a detection cycle after the
  sequence passes the readiness gate: with a map of nonzero width and height it
  publishes a report, computed from that transform.
\<close>

theorem C9_readiness_monotone:
  assumes "gotTransform s"
  shows "gotTransform (run es s)
   \<and> ((\<forall>e\<in>set es. \<not> refreshes e) \<longrightarrow>
        sensorTransform (run es s) = sensorTransform s
        \<and> (map_height s \<noteq> 0 \<and> map_width s \<noteq> 0 \<longrightarrow>
             published (updateSensorCallback now (run es s))
               = published (run es s) @
                 [\<lparr>header_stamp = now,
                   header_frame_id = namespace s @ ''_'' @ frame_id (description s),
                   msg_frame_id = frame_id (description s),
                   msg_rfid_tags = filter (detects s) (rfid_tags (run es s))\<rparr>]))"
proof (intro conjI impI)
  show g: "gotTransform (run es s)"
    using assms by (rule run_gotTransform)
  assume n: "\<forall>e\<in>set es. \<not> refreshes e"
  then show t: "sensorTransform (run es s) = sensorTransform s"
    by (rule run_sensorTransform)
  assume "map_height s \<noteq> 0 \<and> map_width s \<noteq> 0"
  then have "map_height (run es s) \<noteq> 0" "map_width (run es s) \<noteq> 0"
    by (simp_all add: run_fixed)
  from updateSensorCallback_ready [OF g this, of now]
  show "published (updateSensorCallback now (run es s))
               = published (run es s) @
                 [\<lparr>header_stamp = now,
                   header_frame_id = namespace s @ ''_'' @ frame_id (description s),
                   msg_frame_id = frame_id (description s),
                   msg_rfid_tags = filter (detects s) (rfid_tags (run es s))\<rparr>]"
    by (simp add: run_fixed detects_cong [OF t])
qed

text \<open>
  Claim C9, at the concrete reader: two failed lookups, a detection cycle and a tag
  registry update, then a further detection cycle at time 2.
\<close>

theorem C9_readiness_monotone_witness:
  "gotTransform (scenario_reader [tag_at ''A'' 5 0])
   \<and> list_all (\<lambda>e. \<not> refreshes e)
        [TfTimer (TransformException ''lookup failed''), SensorTimer 1, RfidList [],
         TfTimer (TransformException ''timeout'')]
   \<and> map_height (scenario_reader [tag_at ''A'' 5 0]) \<noteq> 0
   \<and> map_width (scenario_reader [tag_at ''A'' 5 0]) \<noteq> 0
   \<and> gotTransform (run
        [TfTimer (TransformException ''lookup failed''), SensorTimer 1, RfidList [],
         TfTimer (TransformException ''timeout'')] (scenario_reader [tag_at ''A'' 5 0]))
   \<and> sensorTransform (run
        [TfTimer (TransformException ''lookup failed''), SensorTimer 1, RfidList [],
         TfTimer (TransformException ''timeout'')] (scenario_reader [tag_at ''A'' 5 0]))
       = \<lparr>origin_x = 0, origin_y = 0, yaw = 0\<rparr>
   \<and> length (published (updateSensorCallback 2 (run
        [TfTimer (TransformException ''lookup failed''), SensorTimer 1, RfidList [],
         TfTimer (TransformException ''timeout'')] (scenario_reader [tag_at ''A'' 5 0]))))
       = length (published (run
        [TfTimer (TransformException ''lookup failed''), SensorTimer 1, RfidList [],
         TfTimer (TransformException ''timeout'')] (scenario_reader [tag_at ''A'' 5 0]))) + 1"
proof -
  let ?s = "scenario_reader [tag_at ''A'' 5 0]"
  let ?es = "[TfTimer (TransformException ''lookup failed''), SensorTimer 1, RfidList [],
         TfTimer (TransformException ''timeout'')]"
  have g: "gotTransform ?s"
    by (simp add: scenario_reader_simps)
  have n: "\<forall>e\<in>set ?es. \<not> refreshes e"
    by simp
  have t: "sensorTransform ?s = \<lparr>origin_x = 0, origin_y = 0, yaw = 0\<rparr>"
    by (simp add: scenario_reader_def)
  show ?thesis
    using g n t C9_readiness_monotone [OF g, of ?es 2]
    by (simp add: scenario_reader_simps)
qed

subsection \<open>One report for each cycle that passes the gates\<close>

text \<open>
  Claim C10: whenever the readiness flag is true and the map has nonzero width and
  height, the detection cycle publishes exactly one report, whose detection list is
  the list of the cached tags that pass the two tests; when no tag passes (the empty
  tag set included) the report is published all the same, with an empty list.
\<close>

theorem C10_one_report:
  assumes "gotTransform s" "map_height s \<noteq> 0" "map_width s \<noteq> 0"
  shows "published (updateSensorCallback now s)
           = published s @ [last (published (updateSensorCallback now s))]
   \<and> msg_rfid_tags (last (published (updateSensorCallback now s)))
           = filter (detects s) (rfid_tags s)
   \<and> ((\<forall>tag\<in>set (rfid_tags s). \<not> detects s tag) \<longrightarrow>
          msg_rfid_tags (last (published (updateSensorCallback now s))) = [])"
  unfolding updateSensorCallback_ready [OF assms] by (simp add: filter_empty_conv)

text \<open>
  Claim C10, at the concrete reader whose only tag, \<open>C\<close> at \<open>(20, 0)\<close>, is out of range:
  one report, with an empty list.
\<close>

theorem C10_one_report_witness:
  "gotTransform (scenario_reader [tag_at ''C'' 20 0])
   \<and> map_height (scenario_reader [tag_at ''C'' 20 0]) \<noteq> 0
   \<and> map_width (scenario_reader [tag_at ''C'' 20 0]) \<noteq> 0
   \<and> \<not> detects (scenario_reader [tag_at ''C'' 20 0]) (tag_at ''C'' 20 0)
   \<and> published (updateSensorCallback 7 (scenario_reader [tag_at ''C'' 20 0]))
       = published (scenario_reader [tag_at ''C'' 20 0])
         @ [last (published (updateSensorCallback 7 (scenario_reader [tag_at ''C'' 20 0])))]
   \<and> msg_rfid_tags (last (published (updateSensorCallback 7 (scenario_reader [tag_at ''C'' 20 0]))))
       = []"
proof -
  let ?s = "scenario_reader [tag_at ''C'' 20 0]"
  have r: "gotTransform ?s" "map_height ?s \<noteq> 0" "map_width ?s \<noteq> 0"
    by (simp_all add: scenario_reader_simps)
  have d: "\<not> detects ?s (tag_at ''C'' 20 0)"
    by (rule detects_scenario_20_0) (simp_all add: scenario_reader_simps tag_at_simps)
  show ?thesis
    using r d C10_one_report [OF r, of 7]
    by (simp add: scenario_reader_simps)
qed

end
